theory Spec2Isabelle
  imports Complex_Main "HOL-Library.Multiset"
begin

section \<open>Data model\<close>

text \<open>
  The parsers store every satellite pass as a dictionary with a fixed set of keys
  (\<^verbatim>\<open>passes.append({...})\<close> in \<^verbatim>\<open>parse_stk_csv\<close>); the metric functions read
  the keys \<^verbatim>\<open>unix_start\<close>, \<^verbatim>\<open>unix_stop\<close> and \<^verbatim>\<open>duration_sec\<close> of it. Python
  floats are idealised as reals; the one non-finite value the metric functions produce,
  \<^verbatim>\<open>float('inf')\<close>, is a constructor of its own.
\<close>

record datetime =
  dt_year :: nat
  dt_month :: nat
  dt_day :: nat
  dt_hour :: nat
  dt_minute :: nat
  dt_second :: nat
  dt_microsecond :: nat

record pass =
  satellite_id :: int
  pass_num :: int
  start_time_str :: string
  stop_time_str :: string
  start_time :: datetime
  stop_time :: datetime
  duration_sec :: real
  unix_start :: real
  unix_stop :: real

datatype pyfloat = Finite real | PosInf


section \<open>Python built-ins used by the metric functions\<close>

text \<open>\<^verbatim>\<open>min(xs, key=k)\<close> on a non-empty list: the first element whose key is minimal.\<close>

fun min_by :: "('a \<Rightarrow> real) \<Rightarrow> 'a \<Rightarrow> 'a list \<Rightarrow> 'a" where
  "min_by k best [] = best"
| "min_by k best (x # xs) = min_by k (if k x < k best then x else best) xs"

text \<open>\<^verbatim>\<open>min(xs)\<close> and \<open>max(xs)\<close> on a non-empty list of numbers.\<close>

fun py_min :: "real list \<Rightarrow> real" where
  "py_min [] = 0"
| "py_min (x # xs) = foldl min x xs"

fun py_max :: "real list \<Rightarrow> real" where
  "py_max [] = 0"
| "py_max (x # xs) = foldl max x xs"

text \<open>\<^verbatim>\<open>np.mean\<close> and \<^verbatim>\<open>np.median\<close>; both are only called on non-empty lists.\<close>

definition np_mean :: "real list \<Rightarrow> real" where
  "np_mean xs = sum_list xs / real (length xs)"

definition np_median :: "real list \<Rightarrow> real" where
  "np_median xs =
     (let s = sort xs; n = length s
      in if odd n then s ! (n div 2) else (s ! (n div 2 - 1) + s ! (n div 2)) / 2)"

section \<open>Metrics engine: \<^verbatim>\<open>analytics/compute_metrics.py\<close>\<close>


text \<open>
  The result dictionaries of the revisit functions; the key \<^verbatim>\<open>count\<close> is absent from
  some of them, hence an option.
\<close>

record revisit =
  rv_min :: pyfloat
  rv_mean :: pyfloat
  rv_max :: pyfloat
  rv_median :: pyfloat
  rv_count :: "nat option"

text \<open>
  The loop \<^verbatim>\<open>for i in range(len(sorted_passes)-1)\<close> walks over adjacent pairs and keeps
  the positive gaps.
\<close>

fun metrics_gaps :: "pass list \<Rightarrow> real list" where
  "metrics_gaps (a # b # rest) =
     (let gap = unix_start b - unix_stop a
      in (if gap > 0 then [gap] else []) @ metrics_gaps (b # rest))"
| "metrics_gaps _ = []"

definition metrics_compute_revisit_times :: "pass list \<Rightarrow> revisit" where
  "metrics_compute_revisit_times passes =
     (if length passes < 2
      then \<lparr>rv_min = PosInf, rv_mean = PosInf, rv_max = Finite 0, rv_median = PosInf,
            rv_count = None\<rparr>
      else
        (let sorted_passes = sort_key unix_start passes;
             gaps = metrics_gaps sorted_passes
         in if gaps = []
            then \<lparr>rv_min = Finite 0, rv_mean = Finite 0, rv_max = Finite 0,
                  rv_median = Finite 0, rv_count = None\<rparr>
            else \<lparr>rv_min = Finite (py_min gaps), rv_mean = Finite (np_mean gaps),
                  rv_max = Finite (py_max gaps), rv_median = Finite (np_median gaps),
                  rv_count = Some (length gaps)\<rparr>))"

text \<open>
  \<^verbatim>\<open>compute_fusion_windows\<close>: the nested loops append the duration of every
  non-degenerate overlap to the list \<^verbatim>\<open>overlaps\<close>; the function returns a summary of
  that list.
\<close>

record fusion =
  fw_count :: nat
  fw_total_duration :: real
  fw_mean_duration :: real
  fw_max_duration :: real

definition fusion_zero :: fusion where
  "fusion_zero = \<lparr>fw_count = 0, fw_total_duration = 0, fw_mean_duration = 0,
                   fw_max_duration = 0\<rparr>"

definition overlap_step :: "pass \<Rightarrow> real list \<Rightarrow> pass \<Rightarrow> real list" where
  "overlap_step sar overlaps opt =
     (let overlap_start = max (unix_start sar) (unix_start opt);
          overlap_end = min (unix_stop sar) (unix_stop opt)
      in if overlap_start < overlap_end
         then (let duration = overlap_end - overlap_start in overlaps @ [duration])
         else overlaps)"

definition fusion_overlaps :: "pass list \<Rightarrow> pass list \<Rightarrow> real list" where
  "fusion_overlaps sar_passes optical_passes =
     (let sar_sorted = sort_key unix_start sar_passes;
          opt_sorted = sort_key unix_start optical_passes
      in foldl (\<lambda>overlaps sar. foldl (overlap_step sar) overlaps opt_sorted) [] sar_sorted)"

definition compute_fusion_windows :: "pass list \<Rightarrow> pass list \<Rightarrow> fusion" where
  "compute_fusion_windows sar_passes optical_passes =
     (if sar_passes = [] \<or> optical_passes = [] then fusion_zero
      else
        (let overlaps = fusion_overlaps sar_passes optical_passes
         in if overlaps = [] then fusion_zero
            else \<lparr>fw_count = length overlaps, fw_total_duration = sum_list overlaps,
                  fw_mean_duration = np_mean overlaps, fw_max_duration = py_max overlaps\<rparr>))"

text \<open>
  \<^verbatim>\<open>compute_delivery_latency\<close>: for every ship pass, in the order of
  \<^verbatim>\<open>unix_stop\<close>, the ground-station passes starting at or after its end are the
  candidates, and the earliest of them gives the latency.
\<close>

record delivery =
  dl_min :: pyfloat
  dl_mean :: pyfloat
  dl_max :: pyfloat
  dl_count :: "nat option"

definition delivery_inf :: delivery where
  "delivery_inf = \<lparr>dl_min = PosInf, dl_mean = PosInf, dl_max = PosInf, dl_count = None\<rparr>"

definition latency_step :: "pass list \<Rightarrow> real list \<Rightarrow> pass \<Rightarrow> real list" where
  "latency_step gs_sorted latencies ship_pass =
     (let ship_end = unix_stop ship_pass;
          candidates = filter (\<lambda>gs. unix_start gs \<ge> ship_end) gs_sorted
      in case candidates of
           [] \<Rightarrow> latencies
         | c # cs \<Rightarrow>
             (let nearest = min_by unix_start c cs;
                  latency = unix_start nearest - ship_end
              in latencies @ [latency]))"

definition delivery_latencies :: "pass list \<Rightarrow> pass list \<Rightarrow> real list" where
  "delivery_latencies ship_passes gs_passes =
     (let ship_sorted = sort_key unix_stop ship_passes;
          gs_sorted = sort_key unix_start gs_passes
      in foldl (latency_step gs_sorted) [] ship_sorted)"

definition compute_delivery_latency :: "pass list \<Rightarrow> pass list \<Rightarrow> delivery" where
  "compute_delivery_latency ship_passes gs_passes =
     (if ship_passes = [] \<or> gs_passes = [] then delivery_inf
      else
        (let latencies = delivery_latencies ship_passes gs_passes
         in if latencies = [] then delivery_inf
            else \<lparr>dl_min = Finite (py_min latencies), dl_mean = Finite (np_mean latencies),
                  dl_max = Finite (py_max latencies), dl_count = Some (length latencies)\<rparr>))"

section \<open>Metrics engine: \<^verbatim>\<open>analytics/compute_eez_metrics.py\<close>\<close>


fun eez_gaps :: "pass list \<Rightarrow> real list" where
  "eez_gaps (a # b # rest) =
     (let gap = unix_start b - unix_stop a
      in (if gap > 0 then [gap / 60] else []) @ eez_gaps (b # rest))"
| "eez_gaps _ = []"

definition eez_compute_revisit_times :: "pass list \<Rightarrow> revisit" where
  "eez_compute_revisit_times passes =
     (if length passes < 2
      then \<lparr>rv_min = PosInf, rv_mean = PosInf, rv_max = Finite 0, rv_median = PosInf,
            rv_count = Some 0\<rparr>
      else
        (let sorted_passes = sort_key unix_start passes;
             gaps = eez_gaps sorted_passes
         in if gaps = []
            then \<lparr>rv_min = Finite 0, rv_mean = Finite 0, rv_max = Finite 0,
                  rv_median = Finite 0, rv_count = Some 0\<rparr>
            else \<lparr>rv_min = Finite (py_min gaps), rv_mean = Finite (np_mean gaps),
                  rv_max = Finite (py_max gaps), rv_median = Finite (np_median gaps),
                  rv_count = Some (length gaps)\<rparr>))"

definition compute_total_access_time :: "pass list \<Rightarrow> real" where
  "compute_total_access_time passes =
     (if passes = [] then 0
      else (let total_sec = sum_list (map duration_sec passes) in total_sec / 60))"

definition compute_coverage_percent :: "pass list \<Rightarrow> real" where
  "compute_coverage_percent passes =
     (let total_min = compute_total_access_time passes;
          total_24h_min = 24 * 60
      in (total_min / total_24h_min) * 100)"

section \<open>String operations of Python\<close>

text \<open>
  A Python \<^verbatim>\<open>str\<close> is modelled as a \<open>string\<close> whose characters are the code points
  below 256. \<^verbatim>\<open>str.strip()\<close> removes the characters for which \<^verbatim>\<open>str.isspace\<close>
  holds: tab to carriage return, the separators 28 to 31, the space, and the code points
  133 and 160.
\<close>

definition py_isspace :: "char \<Rightarrow> bool" where
  "py_isspace c =
     (let n = (of_char c :: nat)
      in (9 \<le> n \<and> n \<le> 13) \<or> (28 \<le> n \<and> n \<le> 32) \<or> n = 133 \<or> n = 160)"

definition py_strip :: "string \<Rightarrow> string" where
  "py_strip s = rev (dropWhile py_isspace (rev (dropWhile py_isspace s)))"

text \<open>\<^verbatim>\<open>s.strip('"')\<close> removes every leading and trailing double quote.\<close>

definition dquote :: char where
  "dquote = CHR 0x22"

definition strip_quotes :: "string \<Rightarrow> string" where
  "strip_quotes s = rev (dropWhile (\<lambda>c. c = dquote) (rev (dropWhile (\<lambda>c. c = dquote) s)))"

definition startswith :: "string \<Rightarrow> string \<Rightarrow> bool" where
  "startswith s p = (take (length p) s = p)"

text \<open>\<^verbatim>\<open>sub in s\<close>: the substring test.\<close>

fun py_contains :: "string \<Rightarrow> string \<Rightarrow> bool" where
  "py_contains sub [] = (sub = [])"
| "py_contains sub (c # cs) = (startswith (c # cs) sub \<or> py_contains sub cs)"

text \<open>\<^verbatim>\<open>s.split(c)\<close> for a single separator character \<open>c\<close>.\<close>

fun split_on :: "char \<Rightarrow> string \<Rightarrow> string list" where
  "split_on c [] = [[]]"
| "split_on c (x # xs) =
     (if x = c then [] # split_on c xs
      else (let r = split_on c xs in (x # hd r) # tl r))"

section \<open>Access-record parser: \<^verbatim>\<open>parse_stk_csv\<close>\<close>

text \<open>
  \<^verbatim>\<open>parse_stk_csv\<close> of \<^verbatim>\<open>parsers/parse_stk_access.py\<close> and of
  \<^verbatim>\<open>parsers/parse_ship_eez.py\<close> are the same function (the first one prints debugging
  lines in addition). The input of the model is the sequence of rows that
  \<^verbatim>\<open>csv.reader\<close> yields for the file, each row a list of cells.

  The conversions of the standard library that the function calls are collected in a
  record, so that the parser is defined for any behaviour of them: \<^verbatim>\<open>int(s)\<close>,
  \<^verbatim>\<open>float(s)\<close> and \<^verbatim>\<open>datetime.strptime(s, "%d %b %Y %H:%M:%S.%f")\<close> return
  \<open>None\<close> where Python raises \<^verbatim>\<open>ValueError\<close>, and \<^verbatim>\<open>timestamp\<close> is
  \<^verbatim>\<open>datetime.timestamp()\<close>, taken to return a number for every datetime (the errors
  it raises for dates outside the range of the platform's clock are not modelled). The
  field \<^verbatim>\<open>start_time\<close> of a pass holds the parsed
  datetime itself, of which the source stores the \<^verbatim>\<open>isoformat()\<close> rendering.
\<close>

record pylib =
  int_of :: "string \<Rightarrow> int option"
  float_of :: "string \<Rightarrow> real option"
  strptime :: "string \<Rightarrow> datetime option"
  timestamp :: "datetime \<Rightarrow> real"

record parse_state =
  ps_passes :: "pass list"
  ps_satellite_id :: int

text \<open>\<^verbatim>\<open>[cell.strip().strip('"') for cell in row if cell.strip()]\<close>\<close>

definition clean_row :: "string list \<Rightarrow> string list" where
  "clean_row row = map (\<lambda>cell. strip_quotes (py_strip cell)) (filter (\<lambda>cell. py_strip cell \<noteq> []) row)"

definition STAT_LABELS :: "string list" where
  "STAT_LABELS = [''Min Duration'', ''Max Duration'', ''Mean Duration'', ''Total Duration'',
                  ''Statistics'']"

text \<open>
  The \<^verbatim>\<open>try\<close> block of a data row: any \<^verbatim>\<open>ValueError\<close> of the four conversions
  leaves the state as it is (\<^verbatim>\<open>continue\<close>).
\<close>

definition parse_data_row :: "pylib \<Rightarrow> parse_state \<Rightarrow> string list \<Rightarrow> parse_state" where
  "parse_data_row L st row =
     (case int_of L (row ! 0) of
        None \<Rightarrow> st
      | Some access_id \<Rightarrow>
          (let start_time = strip_quotes (row ! 1);
               stop_time = strip_quotes (row ! 2)
           in case float_of L (strip_quotes (row ! 3)) of
                None \<Rightarrow> st
              | Some duration \<Rightarrow>
                  (case strptime L start_time of
                     None \<Rightarrow> st
                   | Some start_dt \<Rightarrow>
                       (case strptime L stop_time of
                          None \<Rightarrow> st
                        | Some stop_dt \<Rightarrow>
                            st\<lparr>ps_passes := ps_passes st @
                              [\<lparr>satellite_id = ps_satellite_id st,
                                pass_num = access_id,
                                start_time_str = start_time,
                                stop_time_str = stop_time,
                                start_time = start_dt,
                                stop_time = stop_dt,
                                duration_sec = duration,
                                unix_start = timestamp L start_dt,
                                unix_stop = timestamp L stop_dt\<rparr>]\<rparr>))))"

text \<open>The body of the loop over the rows of the file.\<close>

definition process_row :: "pylib \<Rightarrow> parse_state \<Rightarrow> string list \<Rightarrow> parse_state" where
  "process_row L st raw =
     (let row = clean_row raw
      in if row = [] \<or> length row < 4 then st
         else
           (let first_cell = row ! 0
            in if first_cell = ''Access'' \<and> length row \<ge> 4 \<and> py_contains ''Start Time'' (row ! 1)
               then st\<lparr>ps_satellite_id := ps_satellite_id st + 1\<rparr>
               else if list_ex (startswith first_cell) STAT_LABELS then st
               else parse_data_row L st row))"

definition parse_stk_csv :: "pylib \<Rightarrow> string list list \<Rightarrow> pass list" where
  "parse_stk_csv L rows =
     ps_passes (foldl (process_row L) \<lparr>ps_passes = [], ps_satellite_id = - 1\<rparr> rows)"

text \<open>
  Two notions for stating what the loop does: a row is a header row when the loop body
  takes the branch that increments \<^verbatim>\<open>satellite_id\<close>, and \<open>row_passes L sid raw\<close>
  is what the loop body appends for the row \<open>raw\<close> when the counter is \<open>sid\<close>.
\<close>

definition is_header_row :: "string list \<Rightarrow> bool" where
  "is_header_row raw =
     (let row = clean_row raw
      in 4 \<le> length row \<and> row ! 0 = ''Access'' \<and> py_contains ''Start Time'' (row ! 1))"

definition row_passes :: "pylib \<Rightarrow> int \<Rightarrow> string list \<Rightarrow> pass list" where
  "row_passes L sid raw =
     ps_passes (process_row L \<lparr>ps_passes = [], ps_satellite_id = sid\<rparr> raw)"

section \<open>The conversions of the standard library\<close>

text \<open>
  Concrete models of the four conversions, for evaluating the parser on concrete files.
  Each covers the inputs of the export format and returns \<open>None\<close> outside of it:
  \<open>py_int\<close> reads an optional sign and decimal digits (groups of digits may be
  separated by single underscores); \<open>py_float\<close> reads an optional sign and a plain
  decimal literal (no exponent, no \<^verbatim>\<open>inf\<close> or \<^verbatim>\<open>nan\<close>); \<open>py_strptime\<close> reads the
  format \<^verbatim>\<open>%d %b %Y %H:%M:%S.%f\<close> with single spaces between the fields and the English
  month abbreviations; \<open>py_timestamp\<close> is the POSIX time of a naive datetime on a
  machine whose local time zone is UTC.
\<close>

definition is_digit :: "char \<Rightarrow> bool" where
  "is_digit c = (let n = (of_char c :: nat) in 48 \<le> n \<and> n \<le> 57)"

definition digit_val :: "char \<Rightarrow> nat" where
  "digit_val c = of_char c - 48"

definition digits_val :: "string \<Rightarrow> nat" where
  "digits_val s = foldl (\<lambda>a c. 10 * a + digit_val c) 0 s"

definition digit_groups :: "string \<Rightarrow> string option" where
  "digit_groups s =
     (let parts = split_on (CHR ''_'') s
      in if list_all (\<lambda>p. p \<noteq> [] \<and> list_all is_digit p) parts then Some (concat parts)
         else None)"

definition split_sign :: "string \<Rightarrow> bool \<times> string" where
  "split_sign s =
     (case s of
        [] \<Rightarrow> (False, [])
      | c # r \<Rightarrow>
          if c = CHR ''-'' then (True, r) else if c = CHR ''+'' then (False, r) else (False, s))"

definition py_int :: "string \<Rightarrow> int option" where
  "py_int s =
     (case split_sign (py_strip s) of
        (neg, body) \<Rightarrow>
          (case digit_groups body of
             None \<Rightarrow> None
           | Some ds \<Rightarrow> Some (if neg then - int (digits_val ds) else int (digits_val ds))))"

definition py_float :: "string \<Rightarrow> real option" where
  "py_float s =
     (case split_sign (py_strip s) of
        (neg, body) \<Rightarrow>
          (let ip = takeWhile (\<lambda>c. c \<noteq> CHR ''.'') body;
               fp = drop 1 (dropWhile (\<lambda>c. c \<noteq> CHR ''.'') body)
           in if list_all is_digit ip \<and> list_all is_digit fp \<and> (ip \<noteq> [] \<or> fp \<noteq> [])
              then (let v = real (digits_val ip) + real (digits_val fp) / 10 ^ length fp
                    in Some (if neg then - v else v))
              else None))"

definition bounded_digits :: "nat \<Rightarrow> nat \<Rightarrow> string \<Rightarrow> nat option" where
  "bounded_digits lo hi s =
     (if lo \<le> length s \<and> length s \<le> hi \<and> list_all is_digit s then Some (digits_val s)
      else None)"

definition to_lower :: "char \<Rightarrow> char" where
  "to_lower c =
     (let n = (of_char c :: nat) in if 65 \<le> n \<and> n \<le> 90 then char_of (n + 32) else c)"

definition MONTHS :: "string list" where
  "MONTHS = [''jan'', ''feb'', ''mar'', ''apr'', ''may'', ''jun'', ''jul'', ''aug'', ''sep'',
             ''oct'', ''nov'', ''dec'']"

fun month_number :: "string \<Rightarrow> string list \<Rightarrow> nat \<Rightarrow> nat option" where
  "month_number b [] k = None"
| "month_number b (m # ms) k = (if b = m then Some k else month_number b ms (Suc k))"

definition is_leap :: "nat \<Rightarrow> bool" where
  "is_leap y = (y mod 4 = 0 \<and> (y mod 100 \<noteq> 0 \<or> y mod 400 = 0))"

definition days_in_month :: "nat \<Rightarrow> nat \<Rightarrow> nat" where
  "days_in_month y m =
     (if m = 2 then (if is_leap y then 29 else 28)
      else if m = 4 \<or> m = 6 \<or> m = 9 \<or> m = 11 then 30 else 31)"

definition make_datetime ::
  "nat option \<Rightarrow> nat option \<Rightarrow> nat option \<Rightarrow> nat option \<Rightarrow> nat option \<Rightarrow> nat option \<Rightarrow>
   nat option \<Rightarrow> datetime option" where
  "make_datetime d m y h mi sec us =
     (case (d, m, y, h) of
        (Some dv, Some mv, Some yv, Some hv) \<Rightarrow>
          (case (mi, sec, us) of
             (Some miv, Some sv, Some usv) \<Rightarrow>
               if 1 \<le> yv \<and> 1 \<le> dv \<and> dv \<le> days_in_month yv mv \<and> hv \<le> 23 \<and> miv \<le> 59 \<and> sv \<le> 59
               then Some \<lparr>dt_year = yv, dt_month = mv, dt_day = dv, dt_hour = hv,
                          dt_minute = miv, dt_second = sv, dt_microsecond = usv\<rparr>
               else None
           | _ \<Rightarrow> None)
      | _ \<Rightarrow> None)"

definition py_strptime :: "string \<Rightarrow> datetime option" where
  "py_strptime s =
     (case split_on (CHR '' '') s of
        [d, b, y, t] \<Rightarrow>
          (case split_on (CHR '':'') t of
             [h, mi, sf] \<Rightarrow>
               (case split_on (CHR ''.'') sf of
                  [sec, f] \<Rightarrow>
                    make_datetime (bounded_digits 1 2 d) (month_number (map to_lower b) MONTHS 1)
                      (bounded_digits 4 4 y) (bounded_digits 1 2 h) (bounded_digits 1 2 mi)
                      (bounded_digits 1 2 sec)
                      (map_option (\<lambda>v. v * 10 ^ (6 - length f)) (bounded_digits 1 6 f))
                | _ \<Rightarrow> None)
           | _ \<Rightarrow> None)
      | _ \<Rightarrow> None)"

text \<open>The number of days from 1970-01-01 to a date of the proleptic Gregorian calendar.\<close>

definition days_from_civil :: "int \<Rightarrow> int \<Rightarrow> int \<Rightarrow> int" where
  "days_from_civil y m d =
     (let y' = (if m \<le> 2 then y - 1 else y);
          era = y' div 400;
          yoe = y' - era * 400;
          doy = (153 * (m + (if m > 2 then - 3 else 9)) + 2) div 5 + d - 1;
          doe = yoe * 365 + yoe div 4 - yoe div 100 + doy
      in era * 146097 + doe - 719468)"

definition py_timestamp :: "datetime \<Rightarrow> real" where
  "py_timestamp dt =
     real_of_int
       (days_from_civil (int (dt_year dt)) (int (dt_month dt)) (int (dt_day dt)) * 86400
        + int (dt_hour dt) * 3600 + int (dt_minute dt) * 60 + int (dt_second dt))
     + real (dt_microsecond dt) / 1000000"

definition py_lib :: pylib where
  "py_lib = \<lparr>int_of = py_int, float_of = py_float, strptime = py_strptime,
             timestamp = py_timestamp\<rparr>"

section \<open>Ship-transit files: \<^verbatim>\<open>main\<close> of \<^verbatim>\<open>parsers/parse_ship_eez.py\<close>\<close>






text \<open>\<^verbatim>\<open>str(n)\<close> for an integer, as the f-string \<^verbatim>\<open>f"Ship{ship_num}"\<close> renders it.\<close>

fun str_nat :: "nat \<Rightarrow> string" where
  "str_nat n =
     (if n < 10 then [char_of (48 + n)] else str_nat (n div 10) @ [char_of (48 + n mod 10)])"

declare str_nat.simps [simp del]

definition py_str :: "int \<Rightarrow> string" where
  "py_str i = (if i < 0 then CHR ''-'' # str_nat (nat (- i)) else str_nat (nat i))"







section \<open>Fusion benefits: \<^verbatim>\<open>compute_fusion_benefits\<close> of \<^verbatim>\<open>pipeline.py\<close>\<close>

text \<open>
  The data frame \<^verbatim>\<open>access_data\<close> is the list of its rows, with the three columns the
  function reads; \<^verbatim>\<open>constellation_size\<close> is \<open>None\<close> where the file name gave no
  size.

  The sums and quotients of the function are computed over the reals, where the code
  computes them in binary floating point. The one place where that error shows at the
  precision of the result is the built-in \<^verbatim>\<open>round(x, n)\<close>: the float that the code
  rounds differs from the exact value, and at or next to the midpoint of two decimals
  (7.25 for one decimal) the difference decides which neighbour is reported. So
  \<^verbatim>\<open>round\<close> is a parameter \<open>rnd\<close> of the model, as the conversions of the parser
  are: \<open>rnd x n\<close> is what \<^verbatim>\<open>round\<close> returns for the float computed for \<open>x\<close>.
  \<open>decimal_rounding eps rnd\<close> says what is known of it: the result has \<open>n\<close>
  decimals and lies within half a unit of the last decimal, plus the floating-point error
  \<open>eps\<close>, of \<open>x\<close>. \<open>py_round\<close> is \<^verbatim>\<open>round\<close> on exact reals: the nearest
  value of \<open>n\<close> decimals, a tie to the even neighbour.
\<close>

record access_row =
  constellation_size :: "int option"
  sensor_type :: string
  duration_seconds :: real

record fusion_entry =
  fe_constellation_size :: int
  fe_sar_coverage_pct :: real
  fe_optical_coverage_pct :: real
  fe_fusion_coverage_pct :: real
  fe_fusion_gain_multiplier :: real
  fe_latency_improvement_factor :: real
  fe_sar_passes :: nat
  fe_optical_passes :: nat

definition round_half_even :: "real \<Rightarrow> int" where
  "round_half_even x =
     (let f = \<lfloor>x\<rfloor>; d = x - of_int f
      in if d < 1 / 2 then f else if d > 1 / 2 then f + 1 else if even f then f else f + 1)"

definition py_round :: "real \<Rightarrow> nat \<Rightarrow> real" where
  "py_round x n = of_int (round_half_even (x * 10 ^ n)) / 10 ^ n"

definition decimal_rounding :: "real \<Rightarrow> (real \<Rightarrow> nat \<Rightarrow> real) \<Rightarrow> bool" where
  "decimal_rounding eps rnd =
     (\<forall>x n. \<exists>k :: int. rnd x n = of_int k / 10 ^ n
                      \<and> \<bar>rnd x n - x\<bar> \<le> 1 / (2 * 10 ^ n) + eps)"

definition select_rows :: "access_row list \<Rightarrow> int \<Rightarrow> string \<Rightarrow> access_row list" where
  "select_rows access_data csize sensor =
     filter (\<lambda>r. constellation_size r = Some csize \<and> sensor_type r = sensor) access_data"

text \<open>The body of \<^verbatim>\<open>for constellation_size in [6, 12, 32]\<close>; \<open>None\<close> is \<^verbatim>\<open>continue\<close>.\<close>

definition fusion_entry_of ::
  "(real \<Rightarrow> nat \<Rightarrow> real) \<Rightarrow> access_row list \<Rightarrow> int \<Rightarrow> fusion_entry option" where
  "fusion_entry_of rnd access_data csize =
     (let sar_data = select_rows access_data csize ''SAR'';
          optical_data = select_rows access_data csize ''Optical''
      in if length sar_data = 0 \<or> length optical_data = 0 then None
         else
           (let sar_coverage = (sum_list (map duration_seconds sar_data) / (24 * 3600)) * 100;
                optical_coverage =
                  (sum_list (map duration_seconds optical_data) / (24 * 3600)) * 100;
                fusion_coverage = min (sar_coverage + (optical_coverage * 0.5)) 100;
                fusion_gain = (if sar_coverage > 0 then fusion_coverage / sar_coverage else 0);
                sar_latency = (if csize = 6 then 5 + 10 + (4.8 * 60 / 4)
                               else if csize = 12 then 5 + 10 + (2.1 * 60 / 4)
                               else 5 + 10 + (0.35 * 60 / 4));
                optical_latency = sar_latency * 1.5;
                fusion_latency = (sar_latency + optical_latency) / 2;
                latency_improvement = sar_latency / fusion_latency
            in Some \<lparr>fe_constellation_size = csize,
                     fe_sar_coverage_pct = rnd sar_coverage 1,
                     fe_optical_coverage_pct = rnd optical_coverage 1,
                     fe_fusion_coverage_pct = rnd fusion_coverage 1,
                     fe_fusion_gain_multiplier = rnd fusion_gain 2,
                     fe_latency_improvement_factor = rnd latency_improvement 2,
                     fe_sar_passes = length sar_data,
                     fe_optical_passes = length optical_data\<rparr>))"

definition fusion_step ::
  "(real \<Rightarrow> nat \<Rightarrow> real) \<Rightarrow> access_row list \<Rightarrow> (string \<rightharpoonup> fusion_entry) \<Rightarrow> int \<Rightarrow>
   (string \<rightharpoonup> fusion_entry)" where
  "fusion_step rnd access_data fusion_metrics csize =
     (case fusion_entry_of rnd access_data csize of
        None \<Rightarrow> fusion_metrics
      | Some entry \<Rightarrow> fusion_metrics(''constellation_'' @ py_str csize \<mapsto> entry))"

definition compute_fusion_benefits ::
  "(real \<Rightarrow> nat \<Rightarrow> real) \<Rightarrow> access_row list \<Rightarrow> (string \<rightharpoonup> fusion_entry)" where
  "compute_fusion_benefits rnd access_data =
     foldl (fusion_step rnd access_data) Map.empty [6, 12, 32]"

section \<open>The metric computations in the words of the specification\<close>

text \<open>
  Two definitions written from the specification, not from the code, against which the
  code is compared. The fusion windows: for every pair of events, one from each series,
  the interval intersection \<open>[max(a.start, b.start), min(a.stop, b.stop)]\<close>, kept only
  if its start lies before its stop. \<open>row_windows\<close> are the windows of one event of
  the first series.
\<close>

definition spec_fusion_windows :: "pass list \<Rightarrow> pass list \<Rightarrow> (real \<times> real) list" where
  "spec_fusion_windows series_a series_b =
     filter (\<lambda>(start, stop). start < stop)
       (map (\<lambda>(a, b). (max (unix_start a) (unix_start b), min (unix_stop a) (unix_stop b)))
          (List.product series_a series_b))"

definition row_windows :: "pass \<Rightarrow> pass list \<Rightarrow> (real \<times> real) list" where
  "row_windows a bs =
     filter (\<lambda>(start, stop). start < stop)
       (map (\<lambda>b. (max (unix_start a) (unix_start b), min (unix_stop a) (unix_stop b))) bs)"

text \<open>
  The delivery latencies: for each source event, in the order of \<^verbatim>\<open>stop_time\<close>, the
  least start time among the relay events that start at or after the end of the source
  event, minus that end; a source event without such a relay event contributes nothing.
\<close>

definition spec_delivery_latencies :: "pass list \<Rightarrow> pass list \<Rightarrow> real list" where
  "spec_delivery_latencies source_events relay_events =
     concat (map (\<lambda>source.
        if \<exists>relay \<in> set relay_events. unix_stop source \<le> unix_start relay
        then [Min (unix_start `
                set (filter (\<lambda>relay. unix_stop source \<le> unix_start relay) relay_events))
                - unix_stop source]
        else [])
       (sort_key unix_stop source_events))"

section \<open>Example inputs\<close>

text \<open>Passes and rows on which the theorems below are evaluated.\<close>

definition epoch_dt :: datetime where
  "epoch_dt = \<lparr>dt_year = 1970, dt_month = 1, dt_day = 1, dt_hour = 0, dt_minute = 0,
               dt_second = 0, dt_microsecond = 0\<rparr>"

definition example_pass :: "real \<Rightarrow> real \<Rightarrow> pass" where
  "example_pass s e =
     \<lparr>satellite_id = 0, pass_num = 1, start_time_str = [], stop_time_str = [],
      start_time = epoch_dt, stop_time = epoch_dt, duration_sec = e - s, unix_start = s,
      unix_stop = e\<rparr>"

definition header_row :: "string list" where
  "header_row = [''Access'', ''Start Time (UTCG)'', ''Stop Time (UTCG)'', ''Duration (sec)'']"

definition data_row :: "string list" where
  "data_row = [''1'', ''1 Jan 2026 00:10:00.000'', ''1 Jan 2026 00:20:00.000'', ''600.000'']"

definition second_data_row :: "string list" where
  "second_data_row =
     [''2'', ''1 Jan 2026 01:00:00.000'', ''1 Jan 2026 01:05:00.000'', ''300.000'']"

definition reversed_row :: "string list" where
  "reversed_row = [''1'', ''1 Jan 2026 00:10:00.000'', ''1 Jan 2026 00:00:00.000'', ''5.0'']"

definition short_row :: "string list" where
  "short_row = [''7'', '' '', ''1 Jan 2026 00:10:00.000'', []]"

definition quoted_header_row :: "string list" where
  "quoted_header_row = [''Access'', ''Start Time (UTCG)'', [dquote], ''Duration (sec)'']"

definition data_pass :: pass where
  "data_pass =
     \<lparr>satellite_id = 0, pass_num = 1,
      start_time_str = ''1 Jan 2026 00:10:00.000'',
      stop_time_str = ''1 Jan 2026 00:20:00.000'',
      start_time = \<lparr>dt_year = 2026, dt_month = 1, dt_day = 1, dt_hour = 0, dt_minute = 10,
                     dt_second = 0, dt_microsecond = 0\<rparr>,
      stop_time = \<lparr>dt_year = 2026, dt_month = 1, dt_day = 1, dt_hour = 0, dt_minute = 20,
                    dt_second = 0, dt_microsecond = 0\<rparr>,
      duration_sec = 600, unix_start = 1767226200, unix_stop = 1767226800\<rparr>"


text \<open>
  A second rounding to one or more decimals: it sends a tie to the upper neighbour, as
  \<^verbatim>\<open>round\<close> does when the float it is given lies just above the tie.
\<close>

definition round_ties_up :: "real \<Rightarrow> nat \<Rightarrow> real" where
  "round_ties_up x n = of_int \<lfloor>x * 10 ^ n + 1 / 2\<rfloor> / 10 ^ n"

definition example_access_row :: "int \<Rightarrow> string \<Rightarrow> real \<Rightarrow> access_row" where
  "example_access_row csize sensor d =
     \<lparr>constellation_size = Some csize, sensor_type = sensor, duration_seconds = d\<rparr>"

section \<open>Detection latency\<close>

lemma min_by_mem: "min_by k b xs \<in> set (b # xs)"
  by (induction xs arbitrary: b) auto

lemma min_by_le: "y \<in> set (b # xs) \<Longrightarrow> k (min_by k b xs) \<le> k y"
proof (induction xs arbitrary: b y)
  case Nil
  then show ?case by simp
next
  case (Cons x xs)
  let ?b = "if k x < k b then x else b"
  have low: "k (min_by k ?b xs) \<le> k ?b"
    using Cons.IH [of ?b ?b] by simp
  show ?case
  proof (cases "y \<in> set xs")
    case True
    then show ?thesis using Cons.IH [of y ?b] by simp
  next
    case False
    with Cons.prems have "y = b \<or> y = x" by auto
    then show ?thesis using low by (auto split: if_splits)
  qed
qed

lemma key_min_by: "k (min_by k b xs) = Min (k ` set (b # xs))"
proof (rule sym, rule Min_eqI)
  show "finite (k ` set (b # xs))" by simp
  show "\<And>y. y \<in> k ` set (b # xs) \<Longrightarrow> k (min_by k b xs) \<le> y"
    using min_by_le [of _ b xs k] by auto
  show "k (min_by k b xs) \<in> k ` set (b # xs)"
    using min_by_mem [of k b xs] by blast
qed




section \<open>Revisit times\<close>

lemma adjacent_all_split:
  "(\<forall>i. Suc i < length (a # b # rest) \<longrightarrow> P i) \<longleftrightarrow>
   (P 0 \<and> (\<forall>i. Suc i < length (b # rest) \<longrightarrow> P (Suc i)))"
  by (metis (no_types, lifting) Suc_less_eq length_Cons not0_implies_Suc zero_less_Suc)

lemma eez_gaps_Nil_iff:
  "eez_gaps xs = [] \<longleftrightarrow>
   (\<forall>i. Suc i < length xs \<longrightarrow> unix_start (xs ! Suc i) - unix_stop (xs ! i) \<le> 0)"
proof (induction xs rule: eez_gaps.induct)
  case (1 a b rest)
  show ?case
    unfolding adjacent_all_split using 1 by (simp add: Let_def not_less)
qed simp_all

lemma metrics_gaps_Nil_iff:
  "metrics_gaps xs = [] \<longleftrightarrow>
   (\<forall>i. Suc i < length xs \<longrightarrow> unix_start (xs ! Suc i) - unix_stop (xs ! i) \<le> 0)"
proof (induction xs rule: metrics_gaps.induct)
  case (1 a b rest)
  show ?case
    unfolding adjacent_all_split using 1 by (simp add: Let_def not_less)
qed simp_all

text \<open>
  Claim C2, as stated, fails on the code. Two overlapping passes, \<open>[0, 100]\<close> and
  \<open>[50, 150]\<close>, have one adjacent gap, which is negative; the revisit functions then
  report 0 for min, mean and median, not infinity. The count is 0 there and 0 for a
  single pass as well, so the count does not tell the two cases apart.
\<close>

theorem C2_counterexample:
  "rv_min (eez_compute_revisit_times [example_pass 0 100, example_pass 50 150]) = Finite 0
   \<and> rv_mean (eez_compute_revisit_times [example_pass 0 100, example_pass 50 150]) = Finite 0
   \<and> rv_median (eez_compute_revisit_times [example_pass 0 100, example_pass 50 150])
       = Finite 0
   \<and> rv_min (metrics_compute_revisit_times [example_pass 0 100, example_pass 50 150])
       = Finite 0
   \<and> rv_count (eez_compute_revisit_times [example_pass 0 100, example_pass 50 150]) = Some 0
   \<and> rv_count (eez_compute_revisit_times [example_pass 0 100]) = Some 0"
  by (simp add: eez_compute_revisit_times_def metrics_compute_revisit_times_def
      example_pass_def)

text \<open>
  Claim C2, amended: with fewer than two events the revisit functions report infinity for
  min, mean and median and zero for max (and the function of
  \<^verbatim>\<open>compute_eez_metrics.py\<close> a count of zero). With two or more events whose adjacent
  gaps, in the order of \<^verbatim>\<open>unix_start\<close>, are all non-positive, they report zero for min,
  mean, median and max (and the function of \<^verbatim>\<open>compute_eez_metrics.py\<close> a count of zero).
  The two cases differ in min, mean and median, not in the count.
\<close>

theorem C2_revisit_degenerate:
  "(length passes < 2 \<longrightarrow>
      eez_compute_revisit_times passes =
        \<lparr>rv_min = PosInf, rv_mean = PosInf, rv_max = Finite 0, rv_median = PosInf,
         rv_count = Some 0\<rparr>
      \<and> rv_min (metrics_compute_revisit_times passes) = PosInf
      \<and> rv_mean (metrics_compute_revisit_times passes) = PosInf
      \<and> rv_median (metrics_compute_revisit_times passes) = PosInf
      \<and> rv_max (metrics_compute_revisit_times passes) = Finite 0)
   \<and> (2 \<le> length passes
       \<and> (\<forall>i. Suc i < length passes \<longrightarrow>
              unix_start (sort_key unix_start passes ! Suc i)
                - unix_stop (sort_key unix_start passes ! i) \<le> 0) \<longrightarrow>
      eez_compute_revisit_times passes =
        \<lparr>rv_min = Finite 0, rv_mean = Finite 0, rv_max = Finite 0, rv_median = Finite 0,
         rv_count = Some 0\<rparr>
      \<and> rv_min (metrics_compute_revisit_times passes) = Finite 0
      \<and> rv_mean (metrics_compute_revisit_times passes) = Finite 0
      \<and> rv_median (metrics_compute_revisit_times passes) = Finite 0
      \<and> rv_max (metrics_compute_revisit_times passes) = Finite 0)"
proof (intro conjI impI)
  assume short: "length passes < 2"
  then show "eez_compute_revisit_times passes =
        \<lparr>rv_min = PosInf, rv_mean = PosInf, rv_max = Finite 0, rv_median = PosInf,
         rv_count = Some 0\<rparr>"
    by (simp add: eez_compute_revisit_times_def)
  from short show "rv_min (metrics_compute_revisit_times passes) = PosInf"
    "rv_mean (metrics_compute_revisit_times passes) = PosInf"
    "rv_median (metrics_compute_revisit_times passes) = PosInf"
    "rv_max (metrics_compute_revisit_times passes) = Finite 0"
    by (simp_all add: metrics_compute_revisit_times_def)
next
  assume cov: "2 \<le> length passes
       \<and> (\<forall>i. Suc i < length passes \<longrightarrow>
              unix_start (sort_key unix_start passes ! Suc i)
                - unix_stop (sort_key unix_start passes ! i) \<le> 0)"
  then have e: "eez_gaps (sort_key unix_start passes) = []"
    and m: "metrics_gaps (sort_key unix_start passes) = []"
    by (simp_all add: eez_gaps_Nil_iff metrics_gaps_Nil_iff)
  from cov e show "eez_compute_revisit_times passes =
        \<lparr>rv_min = Finite 0, rv_mean = Finite 0, rv_max = Finite 0, rv_median = Finite 0,
         rv_count = Some 0\<rparr>"
    by (simp add: eez_compute_revisit_times_def)
  from cov m show "rv_min (metrics_compute_revisit_times passes) = Finite 0"
    "rv_mean (metrics_compute_revisit_times passes) = Finite 0"
    "rv_median (metrics_compute_revisit_times passes) = Finite 0"
    "rv_max (metrics_compute_revisit_times passes) = Finite 0"
    by (simp_all add: metrics_compute_revisit_times_def)
qed

theorem C2_witness:
  "length ([] :: pass list) < 2
   \<and> rv_min (eez_compute_revisit_times []) = PosInf
   \<and> 2 \<le> length [example_pass 0 100, example_pass 50 150]
   \<and> unix_start (sort_key unix_start [example_pass 0 100, example_pass 50 150] ! 1)
        - unix_stop (sort_key unix_start [example_pass 0 100, example_pass 50 150] ! 0) \<le> 0
   \<and> rv_min (eez_compute_revisit_times [example_pass 0 100, example_pass 50 150]) = Finite 0
   \<and> rv_max (metrics_compute_revisit_times [example_pass 0 100, example_pass 50 150])
       = Finite 0"
proof -
  have gaps: "\<forall>i. Suc i < length [example_pass 0 100, example_pass 50 150] \<longrightarrow>
      unix_start (sort_key unix_start [example_pass 0 100, example_pass 50 150] ! Suc i)
        - unix_stop (sort_key unix_start [example_pass 0 100, example_pass 50 150] ! i) \<le> 0"
    by (simp add: example_pass_def)
  show ?thesis
    using C2_revisit_degenerate [of "[]"]
      C2_revisit_degenerate [of "[example_pass 0 100, example_pass 50 150]"] gaps
    by (simp add: example_pass_def)
qed

section \<open>Coverage percentage\<close>

text \<open>
  Claim C4, as stated, fails on the code: \<^verbatim>\<open>compute_coverage_percent\<close> takes no period.
  For one pass of 43200 seconds and a period of 43200 seconds the claim gives 100; the
  function returns 50, the share of 24 hours.
\<close>

theorem C4_counterexample:
  "compute_coverage_percent [example_pass 0 43200]
     \<noteq> 100 * sum_list (map duration_sec [example_pass 0 43200]) / 43200"
  by (simp add: compute_coverage_percent_def compute_total_access_time_def example_pass_def)

text \<open>
  Claim C4, amended: for every event list \<^verbatim>\<open>compute_coverage_percent\<close> returns
  100 times the sum of the events' \<^verbatim>\<open>duration_sec\<close> divided by 86400, the period being
  fixed at 24 hours; there is no cap at 100 (a pass of 172800 seconds gives 200), and
  multiplying every \<^verbatim>\<open>duration_sec\<close> by a factor multiplies the result by that factor.
\<close>

theorem C4_coverage_percent:
  "compute_coverage_percent passes = 100 * sum_list (map duration_sec passes) / 86400
   \<and> compute_coverage_percent (map (\<lambda>p. p\<lparr>duration_sec := c * duration_sec p\<rparr>) passes)
       = c * compute_coverage_percent passes
   \<and> compute_coverage_percent [example_pass 0 172800] = 200"
proof -
  have eq: "\<And>ps. compute_coverage_percent ps = 100 * sum_list (map duration_sec ps) / 86400"
    by (simp add: compute_coverage_percent_def compute_total_access_time_def)
  have scale:
    "sum_list (map duration_sec (map (\<lambda>p. p\<lparr>duration_sec := c * duration_sec p\<rparr>) passes))
      = c * sum_list (map duration_sec passes)"
    by (induction passes) (simp_all add: algebra_simps)
  show ?thesis
    unfolding eq scale by (simp add: example_pass_def)
qed

section \<open>The access-record parser\<close>

lemma parse_data_row_passes:
  "ps_passes (parse_data_row L st row) =
     ps_passes st
     @ ps_passes (parse_data_row L \<lparr>ps_passes = [], ps_satellite_id = ps_satellite_id st\<rparr> row)"
  by (simp add: parse_data_row_def Let_def split: option.splits)

lemma parse_data_row_sid:
  "ps_satellite_id (parse_data_row L st row) = ps_satellite_id st"
  by (simp add: parse_data_row_def Let_def split: option.splits)

lemma process_row_passes:
  "ps_passes (process_row L st raw) = ps_passes st @ row_passes L (ps_satellite_id st) raw"
  using parse_data_row_passes [of L st "clean_row raw"]
  by (simp add: process_row_def row_passes_def Let_def)

lemma process_row_sid:
  "ps_satellite_id (process_row L st raw) =
     ps_satellite_id st + (if is_header_row raw then 1 else 0)"
  by (auto simp add: process_row_def is_header_row_def Let_def parse_data_row_sid)

lemma foldl_process_row:
  "ps_satellite_id (foldl (process_row L) st rows) =
     ps_satellite_id st + int (length (filter is_header_row rows))
   \<and> ps_passes (foldl (process_row L) st rows) =
     ps_passes st @ concat (map (\<lambda>i. row_passes L
        (ps_satellite_id st + int (length (filter is_header_row (take i rows)))) (rows ! i))
        [0..<length rows])"
proof (induction rows rule: rev_induct)
  case Nil
  then show ?case by simp
next
  case (snoc r rows)
  have same: "map (\<lambda>i. row_passes L
        (ps_satellite_id st + int (length (filter is_header_row (take i (rows @ [r])))))
        ((rows @ [r]) ! i)) [0..<length rows]
      = map (\<lambda>i. row_passes L
        (ps_satellite_id st + int (length (filter is_header_row (take i rows)))) (rows ! i))
        [0..<length rows]"
    by (rule map_cong) (simp_all add: nth_append)
  have idx: "[0..<length (rows @ [r])] = [0..<length rows] @ [length rows]"
    by simp
  show ?case
    unfolding idx map_append concat_append same
    using snoc by (simp add: process_row_passes process_row_sid)
qed

lemma row_passes_satellite_id:
  "e \<in> set (row_passes L sid raw) \<Longrightarrow> satellite_id e = sid"
  by (auto simp add: row_passes_def process_row_def parse_data_row_def Let_def
      split: if_splits option.splits)

text \<open>
  Claim C7, as stated, fails on the code: the counter starts at -1 and nothing keeps a
  data row that stands before the first header row from being emitted. The file of a data
  row, a header row and a second data row gives two events, the first with
  \<^verbatim>\<open>satellite_id\<close> -1.
\<close>

theorem C7_counterexample:
  "map satellite_id (parse_stk_csv py_lib [data_row, header_row, second_data_row]) = [- 1, 0]"
  by code_simp

text \<open>
  Claim C7, amended: the events of a file are, row by row and in the order of the rows,
  the events that the loop body emits for the row with the counter at the number of
  header rows before that row minus one, and every event carries that counter as its
  \<^verbatim>\<open>satellite_id\<close>. So the \<^verbatim>\<open>satellite_id\<close> of an event is the 0-based index of the
  header block of its row when a header row precedes it, and -1 when none does.
\<close>

theorem C7_satellite_id_index:
  "parse_stk_csv L rows =
     concat (map (\<lambda>i. row_passes L (int (length (filter is_header_row (take i rows))) - 1)
                   (rows ! i)) [0..<length rows])
   \<and> (\<forall>e \<in> set (row_passes L sid raw). satellite_id e = sid)"
  using foldl_process_row [of L "\<lparr>ps_passes = [], ps_satellite_id = - 1\<rparr>" rows]
    row_passes_satellite_id [of _ L sid raw]
  by (simp add: parse_stk_csv_def)

theorem C7_witness:
  "row_passes py_lib 1 second_data_row \<noteq> []
   \<and> list_all (\<lambda>e. satellite_id e = 1) (row_passes py_lib 1 second_data_row)
   \<and> int (length (filter is_header_row
        (take 3 [header_row, data_row, header_row, second_data_row]))) - 1 = 1
   \<and> map satellite_id
        (parse_stk_csv py_lib [header_row, data_row, header_row, second_data_row]) = [0, 1]"
proof -
  have ne: "row_passes py_lib 1 second_data_row \<noteq> []"
    by code_simp
  have hc: "int (length (filter is_header_row
        (take 3 [header_row, data_row, header_row, second_data_row]))) - 1 = 1"
    by code_simp
  have ids: "map satellite_id
      (parse_stk_csv py_lib [header_row, data_row, header_row, second_data_row]) = [0, 1]"
    by code_simp
  show ?thesis
    using C7_satellite_id_index
      [of py_lib "[header_row, data_row, header_row, second_data_row]" 1 second_data_row]
      ne hc ids
    by (simp add: list_all_iff)
qed

lemma process_row_short:
  "length (filter (\<lambda>cell. py_strip cell \<noteq> []) r) < 4 \<Longrightarrow> process_row L st r = st"
  by (simp add: process_row_def clean_row_def)

text \<open>
  Claim C8, as stated, fails on the code: a cell is dropped when it is empty after the
  removal of whitespace, before the quotes are removed. A header row whose third cell is a
  lone double quote has three non-empty cells after whitespace-and-quote cleaning, yet it
  counts as a row of four cells and opens a satellite block: with it in front, the event
  of the file has \<^verbatim>\<open>satellite_id\<close> 1 instead of 0.
\<close>

theorem C8_counterexample:
  "length (filter (\<lambda>cell. strip_quotes (py_strip cell) \<noteq> []) quoted_header_row) = 3
   \<and> map satellite_id
        (parse_stk_csv py_lib ([] @ quoted_header_row # [header_row, data_row])) = [1]
   \<and> map satellite_id (parse_stk_csv py_lib ([] @ [header_row, data_row])) = [0]"
  by code_simp

text \<open>
  Claim C8, amended: a row with fewer than four cells that are non-empty after the removal
  of surrounding whitespace (the test the code makes, before it removes quotes) leaves the
  output unchanged: the file with the row, at any position, has the same event sequence as
  the file without it, and the parser, a total function of the rows, raises nothing for
  it.
\<close>

theorem C8_short_row_ignored:
  "length (filter (\<lambda>cell. py_strip cell \<noteq> []) r) < 4 \<Longrightarrow>
     parse_stk_csv L (xs @ r # ys) = parse_stk_csv L (xs @ ys)"
  by (simp add: parse_stk_csv_def process_row_short)

theorem C8_witness:
  "length (filter (\<lambda>cell. py_strip cell \<noteq> []) short_row) < 4
   \<and> parse_stk_csv py_lib ([header_row] @ short_row # [data_row])
       = parse_stk_csv py_lib ([header_row] @ [data_row])
   \<and> parse_stk_csv py_lib ([header_row] @ [data_row]) = [data_pass]"
proof -
  have short: "length (filter (\<lambda>cell. py_strip cell \<noteq> []) short_row) < 4"
    by code_simp
  have "parse_stk_csv py_lib ([header_row] @ [data_row]) = [data_pass]"
    by code_simp
  then show ?thesis
    using C8_short_row_ignored [OF short, of py_lib "[header_row]" "[data_row]"] short by simp
qed

lemma row_passes_fields:
  "e \<in> set (row_passes L sid raw) \<Longrightarrow>
     4 \<le> length (clean_row raw)
     \<and> int_of L (clean_row raw ! 0) = Some (pass_num e)
     \<and> strptime L (strip_quotes (clean_row raw ! 1)) = Some (start_time e)
     \<and> strptime L (strip_quotes (clean_row raw ! 2)) = Some (stop_time e)
     \<and> float_of L (strip_quotes (clean_row raw ! 3)) = Some (duration_sec e)
     \<and> unix_start e = timestamp L (start_time e)
     \<and> unix_stop e = timestamp L (stop_time e)"
  by (auto simp add: row_passes_def process_row_def parse_data_row_def Let_def
      split: if_splits option.splits)

lemma parse_stk_csv_mem:
  assumes "e \<in> set (parse_stk_csv L rows)"
  shows "\<exists>raw \<in> set rows. \<exists>sid. e \<in> set (row_passes L sid raw)"
proof -
  from assms foldl_process_row [of L "\<lparr>ps_passes = [], ps_satellite_id = - 1\<rparr>" rows]
  obtain i where "i < length rows"
    and "e \<in> set (row_passes L
      (- 1 + int (length (filter is_header_row (take i rows)))) (rows ! i))"
    by (auto simp add: parse_stk_csv_def)
  then show ?thesis
    using nth_mem by blast
qed

text \<open>
  Claim C3, as stated, fails on the code: the parser compares neither the two timestamps
  nor the duration with their difference. A data row whose stop time lies ten minutes
  before its start time and whose duration cell reads 5.0 is emitted as it is, with
  \<^verbatim>\<open>unix_stop\<close> 600 seconds below \<^verbatim>\<open>unix_start\<close> and \<^verbatim>\<open>duration_sec\<close> 5.
\<close>

theorem C3_counterexample:
  "map (\<lambda>e. (unix_start e, unix_stop e, duration_sec e))
     (parse_stk_csv py_lib [header_row, reversed_row]) = [(1767226200, 1767225600, 5)]"
  by code_simp

text \<open>
  Claim C3, amended: every event that the parser emits comes from a row of the file with
  at least four cleaned cells; its start and stop datetimes are what \<^verbatim>\<open>strptime\<close>
  reads from the second and the third cell, \<^verbatim>\<open>unix_start\<close> and \<^verbatim>\<open>unix_stop\<close> are their
  timestamps, and \<^verbatim>\<open>duration_sec\<close> is what \<^verbatim>\<open>float\<close> reads from the fourth cell. The
  parser relates neither the two timestamps nor the duration to one another.
\<close>

theorem C3_event_fields:
  assumes "e \<in> set (parse_stk_csv L rows)"
  shows "\<exists>raw \<in> set rows.
     4 \<le> length (clean_row raw)
     \<and> strptime L (strip_quotes (clean_row raw ! 1)) = Some (start_time e)
     \<and> strptime L (strip_quotes (clean_row raw ! 2)) = Some (stop_time e)
     \<and> float_of L (strip_quotes (clean_row raw ! 3)) = Some (duration_sec e)
     \<and> unix_start e = timestamp L (start_time e)
     \<and> unix_stop e = timestamp L (stop_time e)"
  using parse_stk_csv_mem [OF assms] row_passes_fields by blast

theorem C3_witness:
  "data_pass \<in> set (parse_stk_csv py_lib [header_row, data_row])
   \<and> (\<exists>raw \<in> set [header_row, data_row].
     4 \<le> length (clean_row raw)
     \<and> strptime py_lib (strip_quotes (clean_row raw ! 1)) = Some (start_time data_pass)
     \<and> strptime py_lib (strip_quotes (clean_row raw ! 2)) = Some (stop_time data_pass)
     \<and> float_of py_lib (strip_quotes (clean_row raw ! 3)) = Some (duration_sec data_pass)
     \<and> unix_start data_pass = timestamp py_lib (start_time data_pass)
     \<and> unix_stop data_pass = timestamp py_lib (stop_time data_pass))"
proof -
  have "parse_stk_csv py_lib [header_row, data_row] = [data_pass]"
    by code_simp
  then have mem: "data_pass \<in> set (parse_stk_csv py_lib [header_row, data_row])"
    by simp
  show ?thesis
    using C3_event_fields [OF mem] mem by blast
qed

section \<open>Fusion windows\<close>

lemma foldl_overlap_step:
  "foldl (overlap_step sar) acc opts = acc @ map (\<lambda>(s, e). e - s) (row_windows sar opts)"
  by (induction opts arbitrary: acc) (simp_all add: overlap_step_def row_windows_def Let_def)

lemma foldl_overlap_rows:
  "foldl (\<lambda>overlaps sar. foldl (overlap_step sar) overlaps opts) acc sars =
     acc @ concat (map (\<lambda>a. map (\<lambda>(s, e). e - s) (row_windows a opts)) sars)"
  by (induction sars arbitrary: acc) (simp_all add: foldl_overlap_step)

lemma spec_fusion_windows_rows:
  "spec_fusion_windows A B = concat (map (\<lambda>a. row_windows a B) A)"
  by (induction A) (simp_all add: spec_fusion_windows_def row_windows_def comp_def)

lemma mset_row_windows:
  "mset (row_windows a bs) =
     filter_mset (\<lambda>(start, stop). start < stop)
       (image_mset (\<lambda>b. (max (unix_start a) (unix_start b), min (unix_stop a) (unix_stop b)))
          (mset bs))"
  by (simp add: row_windows_def)

lemma mset_concat_rows:
  "mset (concat (map (\<lambda>a. row_windows a bs) as)) =
     (\<Sum>a \<in># mset as. mset (row_windows a bs))"
  by (induction as) simp_all

lemma mset_windows_sorted:
  "mset (concat (map (\<lambda>a. row_windows a (sort_key k B)) (sort_key k' A)))
     = mset (spec_fusion_windows A B)"
  unfolding spec_fusion_windows_rows mset_concat_rows mset_row_windows by simp

lemma fusion_overlaps_mset:
  "mset (fusion_overlaps A B) = mset (map (\<lambda>(s, e). e - s) (spec_fusion_windows A B))"
proof -
  let ?X = "concat (map (\<lambda>a. row_windows a (sort_key unix_start B)) (sort_key unix_start A))"
  have eq: "fusion_overlaps A B = map (\<lambda>(s, e). e - s) ?X"
    by (simp add: fusion_overlaps_def foldl_overlap_rows map_concat comp_def)
  have "image_mset (\<lambda>(s, e). e - s) (mset ?X)
      = image_mset (\<lambda>(s, e). e - s) (mset (spec_fusion_windows A B))"
    by (rule arg_cong [OF mset_windows_sorted])
  then show ?thesis
    by (simp only: eq mset_map)
qed

lemma fusion_overlaps_empty: "A = [] \<or> B = [] \<Longrightarrow> fusion_overlaps A B = []"
  by (auto simp add: fusion_overlaps_def foldl_overlap_rows row_windows_def)

lemma compute_fusion_windows_summary:
  "fw_count (compute_fusion_windows A B) = length (fusion_overlaps A B)
   \<and> fw_total_duration (compute_fusion_windows A B) = sum_list (fusion_overlaps A B)"
  using fusion_overlaps_empty [of A B]
  by (auto simp add: compute_fusion_windows_def fusion_zero_def Let_def)

text \<open>
  Claim C5: the overlaps that \<^verbatim>\<open>compute_fusion_windows\<close> collects are, up to their
  order, the durations of the fusion windows of the specification: one for every pair of
  events, one from each series, whose intersection is non-degenerate, none for the other
  pairs. The count it returns is the number of these windows and the total duration their
  sum. The events \<open>[0, 100]\<close> and \<open>[50, 150]\<close> have the one window \<open>[50, 100]\<close>,
  of duration 50.
\<close>

theorem C5_fusion_windows:
  "mset (fusion_overlaps A B) = mset (map (\<lambda>(s, e). e - s) (spec_fusion_windows A B))
   \<and> fw_count (compute_fusion_windows A B) = length (spec_fusion_windows A B)
   \<and> fw_total_duration (compute_fusion_windows A B)
       = sum_list (map (\<lambda>(s, e). e - s) (spec_fusion_windows A B))
   \<and> spec_fusion_windows [example_pass 0 100] [example_pass 50 150] = [(50, 100)]
   \<and> compute_fusion_windows [example_pass 0 100] [example_pass 50 150]
       = \<lparr>fw_count = 1, fw_total_duration = 50, fw_mean_duration = 50, fw_max_duration = 50\<rparr>"
proof -
  note m = fusion_overlaps_mset [of A B]
  have len: "length (fusion_overlaps A B) = length (spec_fusion_windows A B)"
    using arg_cong [OF m, of size] by simp
  have total: "sum_list (fusion_overlaps A B)
      = sum_list (map (\<lambda>(s, e). e - s) (spec_fusion_windows A B))"
    using arg_cong [OF m, of sum_mset] by (simp only: sum_mset_sum_list)
  have ex1: "spec_fusion_windows [example_pass 0 100] [example_pass 50 150] = [(50, 100)]"
    by (simp add: spec_fusion_windows_def example_pass_def)
  have ex2: "compute_fusion_windows [example_pass 0 100] [example_pass 50 150]
       = \<lparr>fw_count = 1, fw_total_duration = 50, fw_mean_duration = 50, fw_max_duration = 50\<rparr>"
    by (simp add: compute_fusion_windows_def fusion_overlaps_def overlap_step_def
        example_pass_def np_mean_def)
  show ?thesis
    using m len total ex1 ex2 compute_fusion_windows_summary [of A B] by simp
qed

section \<open>Delivery latency\<close>

lemma latency_step_eq:
  "latency_step (sort_key k G) acc s =
     acc @ (if \<exists>g \<in> set G. unix_stop s \<le> unix_start g
            then [Min (unix_start ` set (filter (\<lambda>g. unix_stop s \<le> unix_start g) G)) - unix_stop s]
            else [])"
proof (cases "filter (\<lambda>g. unix_stop s \<le> unix_start g) (sort_key k G)")
  case Nil
  then have "\<not> (\<exists>g \<in> set G. unix_stop s \<le> unix_start g)"
    by (auto simp add: filter_empty_conv)
  with Nil show ?thesis
    by (simp add: latency_step_def)
next
  case (Cons c cs)
  then have "set (c # cs) = set (filter (\<lambda>g. unix_stop s \<le> unix_start g) G)"
    by (metis set_filter set_sort)
  moreover from this have "\<exists>g \<in> set G. unix_stop s \<le> unix_start g"
    by auto
  ultimately show ?thesis
    using Cons key_min_by [of unix_start c cs]
    by (simp add: latency_step_def Let_def del: set_simps)
qed

lemma foldl_latency_step:
  "foldl (latency_step (sort_key k G)) acc ships =
     acc @ concat (map (\<lambda>s.
        if \<exists>g \<in> set G. unix_stop s \<le> unix_start g
        then [Min (unix_start ` set (filter (\<lambda>g. unix_stop s \<le> unix_start g) G)) - unix_stop s]
        else []) ships)"
  by (induction ships arbitrary: acc) (simp_all add: latency_step_eq)

lemma delivery_latencies_spec:
  "delivery_latencies S G = spec_delivery_latencies S G"
  by (simp add: delivery_latencies_def spec_delivery_latencies_def foldl_latency_step)

lemma spec_delivery_latencies_Nil:
  "\<forall>s \<in> set S. \<forall>g \<in> set G. unix_start g < unix_stop s \<Longrightarrow> spec_delivery_latencies S G = []"
proof -
  assume far: "\<forall>s \<in> set S. \<forall>g \<in> set G. unix_start g < unix_stop s"
  have "\<not> (\<exists>g \<in> set G. unix_stop s \<le> unix_start g)" if "s \<in> set S" for s
    using far that by (auto simp add: not_le)
  then show ?thesis
    by (simp add: spec_delivery_latencies_def)
qed

text \<open>
  Claim C6: the latencies that \<^verbatim>\<open>compute_delivery_latency\<close> collects are the delivery
  latencies of the specification: for each source event the latency to the relay event
  of least start time among those that start at or after its end, and no sample for a
  source event without one. The function returns the infinity-filled dictionary when
  there is no sample, hence whenever no source event has a match, and the minimum, mean
  and maximum of the samples otherwise.
\<close>

theorem C6_delivery_latency:
  "delivery_latencies S G = spec_delivery_latencies S G
   \<and> compute_delivery_latency S G =
       (if spec_delivery_latencies S G = [] then delivery_inf
        else \<lparr>dl_min = Finite (py_min (spec_delivery_latencies S G)),
              dl_mean = Finite (np_mean (spec_delivery_latencies S G)),
              dl_max = Finite (py_max (spec_delivery_latencies S G)),
              dl_count = Some (length (spec_delivery_latencies S G))\<rparr>)
   \<and> ((\<forall>s \<in> set S. \<forall>g \<in> set G. unix_start g < unix_stop s) \<longrightarrow>
        dl_min (compute_delivery_latency S G) = PosInf
        \<and> dl_mean (compute_delivery_latency S G) = PosInf
        \<and> dl_max (compute_delivery_latency S G) = PosInf)"
proof -
  have empty: "S = [] \<or> G = [] \<Longrightarrow> spec_delivery_latencies S G = []"
    by (auto simp add: spec_delivery_latencies_def)
  have main: "compute_delivery_latency S G =
       (if spec_delivery_latencies S G = [] then delivery_inf
        else \<lparr>dl_min = Finite (py_min (spec_delivery_latencies S G)),
              dl_mean = Finite (np_mean (spec_delivery_latencies S G)),
              dl_max = Finite (py_max (spec_delivery_latencies S G)),
              dl_count = Some (length (spec_delivery_latencies S G))\<rparr>)"
    using empty by (auto simp add: compute_delivery_latency_def delivery_latencies_spec Let_def)
  show ?thesis
    using main spec_delivery_latencies_Nil [of S G]
    by (simp add: delivery_latencies_spec delivery_inf_def)
qed

theorem C6_witness:
  "list_all (\<lambda>s. list_all (\<lambda>g. unix_start g < unix_stop s) [example_pass 50 60]) [example_pass 0 100]
   \<and> dl_min (compute_delivery_latency [example_pass 0 100] [example_pass 50 60]) = PosInf
   \<and> dl_mean (compute_delivery_latency [example_pass 0 100] [example_pass 50 60]) = PosInf
   \<and> dl_max (compute_delivery_latency [example_pass 0 100] [example_pass 50 60]) = PosInf
   \<and> delivery_latencies [example_pass 0 100, example_pass 0 10] [example_pass 150 200, example_pass 120 130, example_pass 50 60]
       = [40, 20]"
proof -
  have far: "\<forall>s \<in> set [example_pass 0 100]. \<forall>g \<in> set [example_pass 50 60]. unix_start g < unix_stop s"
    by (simp add: example_pass_def)
  have lat: "spec_delivery_latencies [example_pass 0 100, example_pass 0 10] [example_pass 150 200, example_pass 120 130, example_pass 50 60]
       = [40, 20]"
    by (simp add: spec_delivery_latencies_def example_pass_def)
  have far_list: "list_all (\<lambda>s. list_all (\<lambda>g. unix_start g < unix_stop s) [example_pass 50 60])
      [example_pass 0 100]"
    by (simp add: example_pass_def)
  from C6_delivery_latency [of "[example_pass 0 100]" "[example_pass 50 60]"] far
  have inf: "dl_min (compute_delivery_latency [example_pass 0 100] [example_pass 50 60]) = PosInf
      \<and> dl_mean (compute_delivery_latency [example_pass 0 100] [example_pass 50 60]) = PosInf
      \<and> dl_max (compute_delivery_latency [example_pass 0 100] [example_pass 50 60]) = PosInf"
    by blast
  from C6_delivery_latency [of "[example_pass 0 100, example_pass 0 10]"
      "[example_pass 150 200, example_pass 120 130, example_pass 50 60]"]
  have "delivery_latencies [example_pass 0 100, example_pass 0 10]
      [example_pass 150 200, example_pass 120 130, example_pass 50 60]
       = spec_delivery_latencies [example_pass 0 100, example_pass 0 10]
      [example_pass 150 200, example_pass 120 130, example_pass 50 60]"
    by blast
  with lat inf far_list show ?thesis
    by (simp only: simp_thms)
qed

section \<open>Ship-transit files\<close>






section \<open>Fusion benefits\<close>

lemma round_half_even_near: "\<bar>of_int (round_half_even y) - y\<bar> \<le> 1 / 2"
proof -
  have "of_int \<lfloor>y\<rfloor> \<le> y" "y < of_int \<lfloor>y\<rfloor> + 1"
    by linarith+
  then show ?thesis
    by (auto simp add: round_half_even_def Let_def abs_le_iff)
qed

lemma decimal_near:
  fixes k :: int
  assumes "\<bar>of_int k - x * 10 ^ n\<bar> \<le> (1 / 2 :: real)"
  shows "\<bar>of_int k / 10 ^ n - x\<bar> \<le> 1 / (2 * 10 ^ n)"
proof -
  have pos: "(0 :: real) < 10 ^ n" by simp
  have "of_int k / 10 ^ n - x = (of_int k - x * 10 ^ n) / 10 ^ n"
    by (simp add: field_simps)
  then have "\<bar>of_int k / 10 ^ n - x\<bar> = \<bar>of_int k - x * 10 ^ n\<bar> / 10 ^ n"
    by (simp add: abs_divide)
  also have "\<dots> \<le> (1 / 2) / 10 ^ n"
    by (rule divide_right_mono [OF assms]) simp
  finally show ?thesis by simp
qed

lemma py_round_decimal: "decimal_rounding 0 py_round"
  unfolding decimal_rounding_def py_round_def
  using decimal_near [OF round_half_even_near] by auto

lemma round_ties_up_decimal: "decimal_rounding 0 round_ties_up"
proof -
  have "\<bar>of_int \<lfloor>y + 1 / 2\<rfloor> - y\<bar> \<le> 1 / 2" for y :: real
    by linarith
  then show ?thesis
    unfolding decimal_rounding_def round_ties_up_def
    using decimal_near by auto
qed

lemma decimal_rounding_cap:
  assumes r: "decimal_rounding eps rnd" and e: "eps < 1 / 20" and x: "x \<le> 100"
  shows "rnd x 1 \<le> 100"
proof -
  from r obtain k :: int where k: "rnd x 1 = of_int k / 10 ^ 1"
    and near: "\<bar>rnd x 1 - x\<bar> \<le> 1 / (2 * 10 ^ 1) + eps"
    unfolding decimal_rounding_def by blast
  from near e x have "rnd x 1 < 100 + 1 / 10"
    by (simp add: abs_le_iff)
  with k have "(of_int k :: real) < 1001"
    by simp
  then have "k \<le> 1000"
    by linarith
  then have "(of_int k :: real) \<le> 1000"
    by linarith
  with k show ?thesis
    by simp
qed

lemma py_str_sizes: "py_str 6 = ''6''" "py_str 12 = ''12''" "py_str 32 = ''32''"
  by code_simp+

lemma compute_fusion_benefits_lookup:
  assumes "csize = 6 \<or> csize = 12 \<or> csize = 32"
  shows "compute_fusion_benefits rnd access_data (''constellation_'' @ py_str csize)
           = fusion_entry_of rnd access_data csize"
proof -
  have unfold: "compute_fusion_benefits rnd access_data
      = fusion_step rnd access_data (fusion_step rnd access_data
          (fusion_step rnd access_data Map.empty 6) 12) 32"
    by (simp add: compute_fusion_benefits_def)
  from assms show ?thesis
    unfolding unfold fusion_step_def
    by (auto simp add: py_str_sizes split: option.splits)
qed

lemma fusion_entry_of_coverage:
  assumes "select_rows access_data csize ''SAR'' \<noteq> []"
    and "select_rows access_data csize ''Optical'' \<noteq> []"
  shows "\<exists>entry. fusion_entry_of rnd access_data csize = Some entry
     \<and> fe_fusion_coverage_pct entry =
        rnd (min (sum_list (map duration_seconds (select_rows access_data csize ''SAR''))
                        / 86400 * 100
                      + 0.5 * (sum_list (map duration_seconds
                                 (select_rows access_data csize ''Optical'')) / 86400 * 100))
                    100) 1"
  using assms by (simp add: fusion_entry_of_def Let_def)

text \<open>
  Claim C10, as stated, fails on the code: the dictionary holds the fused coverage rounded
  to one decimal. With 100 seconds of SAR access and one second of optical access for the
  6-satellite constellation the fused coverage is 67/576 percent, about 0.116, far from
  the midpoint of two tenths, and the function reports 0.1.
\<close>

theorem C10_counterexample:
  "map_option fe_fusion_coverage_pct
     (compute_fusion_benefits py_round
        [example_access_row 6 ''SAR'' 100, example_access_row 6 ''Optical'' 1]
        ''constellation_6'') = Some (1 / 10)
   \<and> min (100 / 86400 * 100 + 0.5 * (1 / 86400 * 100)) (100 :: real) = 67 / 576"
  by code_simp

text \<open>
  Claim C10, amended: for a constellation size of 6, 12 or 32 with both SAR and optical
  rows in the access data, \<^verbatim>\<open>compute_fusion_benefits\<close> reports under
  \<^verbatim>\<open>constellation_<size>\<close> as \<^verbatim>\<open>fusion_coverage_pct\<close> what \<^verbatim>\<open>round(x, 1)\<close>
  returns for \<open>min(sar_coverage + 0.5 * optical_coverage, 100)\<close>, the two coverages
  being the unrounded percentages of 24 hours: a value of one decimal that lies within
  0.05, plus the floating-point error, of that minimum, and that never exceeds 100.
  Which of the two neighbouring tenths is reported for a minimum at, or within the
  floating-point error of, their midpoint is left open: for 6048 seconds of SAR and 432
  seconds of optical access the minimum is 7.25, rounding on exact reals gives 7.2 and a
  rounding that sends the tie upwards gives 7.3, and the statement holds of both.
\<close>

theorem C10_fusion_coverage:
  assumes "csize = 6 \<or> csize = 12 \<or> csize = 32"
    and "select_rows access_data csize ''SAR'' \<noteq> []"
    and "select_rows access_data csize ''Optical'' \<noteq> []"
    and "decimal_rounding eps rnd"
    and "eps < 1 / 20"
  shows "\<exists>entry k.
     compute_fusion_benefits rnd access_data (''constellation_'' @ py_str csize) = Some entry
     \<and> fe_fusion_coverage_pct entry =
        rnd (min (sum_list (map duration_seconds (select_rows access_data csize ''SAR''))
                        / 86400 * 100
                      + 0.5 * (sum_list (map duration_seconds
                                 (select_rows access_data csize ''Optical'')) / 86400 * 100))
                    100) 1
     \<and> fe_fusion_coverage_pct entry = of_int k / 10
     \<and> \<bar>fe_fusion_coverage_pct entry
          - min (sum_list (map duration_seconds (select_rows access_data csize ''SAR''))
                        / 86400 * 100
                      + 0.5 * (sum_list (map duration_seconds
                                 (select_rows access_data csize ''Optical'')) / 86400 * 100))
                    100\<bar> \<le> 1 / 20 + eps
     \<and> fe_fusion_coverage_pct entry \<le> 100"
proof -
  let ?m = "min (sum_list (map duration_seconds (select_rows access_data csize ''SAR''))
                        / 86400 * 100
                      + 0.5 * (sum_list (map duration_seconds
                                 (select_rows access_data csize ''Optical'')) / 86400 * 100))
                    100"
  from fusion_entry_of_coverage [OF assms(2) assms(3), of rnd]
  obtain entry where e: "fusion_entry_of rnd access_data csize = Some entry"
    and c: "fe_fusion_coverage_pct entry = rnd ?m 1"
    by blast
  from assms(4) obtain k :: int where k: "rnd ?m 1 = of_int k / 10 ^ 1"
    and near: "\<bar>rnd ?m 1 - ?m\<bar> \<le> 1 / (2 * 10 ^ 1) + eps"
    unfolding decimal_rounding_def by blast
  have cap: "rnd ?m 1 \<le> 100"
    by (rule decimal_rounding_cap [OF assms(4) assms(5)]) simp
  have "compute_fusion_benefits rnd access_data (''constellation_'' @ py_str csize) = Some entry"
    using e compute_fusion_benefits_lookup [OF assms(1), of rnd access_data] by simp
  moreover have "fe_fusion_coverage_pct entry = of_int k / 10"
    using c k by simp
  moreover have "\<bar>fe_fusion_coverage_pct entry - ?m\<bar> \<le> 1 / 20 + eps"
    using c near by simp
  moreover have "fe_fusion_coverage_pct entry \<le> 100"
    using c cap by simp
  ultimately show ?thesis
    using c by blast
qed

theorem C10_witness:
  "select_rows [example_access_row 6 ''SAR'' 6048, example_access_row 6 ''Optical'' 432] 6 ''SAR''
     \<noteq> []
   \<and> select_rows [example_access_row 6 ''SAR'' 6048, example_access_row 6 ''Optical'' 432] 6
       ''Optical'' \<noteq> []
   \<and> decimal_rounding 0 py_round
   \<and> decimal_rounding 0 round_ties_up
   \<and> (\<exists>entry.
        compute_fusion_benefits py_round
          [example_access_row 6 ''SAR'' 6048, example_access_row 6 ''Optical'' 432]
          (''constellation_'' @ py_str 6) = Some entry
        \<and> fe_fusion_coverage_pct entry \<le> 100)
   \<and> (\<exists>entry.
        compute_fusion_benefits round_ties_up
          [example_access_row 6 ''SAR'' 6048, example_access_row 6 ''Optical'' 432]
          (''constellation_'' @ py_str 6) = Some entry
        \<and> fe_fusion_coverage_pct entry \<le> 100)
   \<and> map_option fe_fusion_coverage_pct
        (compute_fusion_benefits py_round
          [example_access_row 6 ''SAR'' 6048, example_access_row 6 ''Optical'' 432]
          ''constellation_6'') = Some (72 / 10)
   \<and> map_option fe_fusion_coverage_pct
        (compute_fusion_benefits round_ties_up
          [example_access_row 6 ''SAR'' 6048, example_access_row 6 ''Optical'' 432]
          ''constellation_6'') = Some (73 / 10)
   \<and> map_option fe_fusion_coverage_pct
        (compute_fusion_benefits py_round
          [example_access_row 6 ''SAR'' 172800, example_access_row 6 ''Optical'' 1]
          ''constellation_6'') = Some 100"
proof -
  have sar: "select_rows [example_access_row 6 ''SAR'' 6048, example_access_row 6 ''Optical'' 432]
      6 ''SAR'' \<noteq> []"
    by code_simp
  have opt: "select_rows [example_access_row 6 ''SAR'' 6048, example_access_row 6 ''Optical'' 432]
      6 ''Optical'' \<noteq> []"
    by code_simp
  have even: "map_option fe_fusion_coverage_pct
        (compute_fusion_benefits py_round
          [example_access_row 6 ''SAR'' 6048, example_access_row 6 ''Optical'' 432]
          ''constellation_6'') = Some (72 / 10)"
    by code_simp
  have up: "map_option fe_fusion_coverage_pct
        (compute_fusion_benefits round_ties_up
          [example_access_row 6 ''SAR'' 6048, example_access_row 6 ''Optical'' 432]
          ''constellation_6'') = Some (73 / 10)"
    by code_simp
  have capped: "map_option fe_fusion_coverage_pct
        (compute_fusion_benefits py_round
          [example_access_row 6 ''SAR'' 172800, example_access_row 6 ''Optical'' 1]
          ''constellation_6'') = Some 100"
    by code_simp
  have six: "(6 :: int) = 6 \<or> (6 :: int) = 12 \<or> (6 :: int) = 32"
    by simp
  have eps: "(0 :: real) < 1 / 20"
    by simp
  from C10_fusion_coverage [OF six sar opt py_round_decimal eps]
  have a: "\<exists>entry.
        compute_fusion_benefits py_round
          [example_access_row 6 ''SAR'' 6048, example_access_row 6 ''Optical'' 432]
          (''constellation_'' @ py_str 6) = Some entry
        \<and> fe_fusion_coverage_pct entry \<le> 100"
    by blast
  from C10_fusion_coverage [OF six sar opt round_ties_up_decimal eps]
  have b: "\<exists>entry.
        compute_fusion_benefits round_ties_up
          [example_access_row 6 ''SAR'' 6048, example_access_row 6 ''Optical'' 432]
          (''constellation_'' @ py_str 6) = Some entry
        \<and> fe_fusion_coverage_pct entry \<le> 100"
    by blast
  from sar opt py_round_decimal round_ties_up_decimal a b even up capped show ?thesis
    by (intro conjI)
qed

end
